theory Spec2Isabelle
  imports Main "HOL-Library.Word" "HOL-Library.Sublist"
begin

section \<open>JavaScript strings\<close>

text \<open>
  A JavaScript string is a sequence of UTF-16 code units; \<open>length\<close>, \<open>startsWith\<close>,
  \<open>trim\<close> and the regular expression of the generator (which has no \<open>u\<close> flag) all work
  on code units. String literals of the source are written \<open>js ''...''\<close>.
\<close>

type_synonym code_unit = "16 word"
type_synonym jsstring = "code_unit list"

definition js :: "string \<Rightarrow> jsstring" where
  "js s = map (\<lambda>c. of_nat (of_char c)) s"

text \<open>The double quote, which the error messages of the generator put around a name.\<close>

definition dquote :: jsstring where
  "dquote = [0x22]"

text \<open>
  \<open>String.prototype.trim\<close> removes the code units of the ECMAScript productions WhiteSpace
  (TAB, VT, FF, ZWNBSP and the space separators) and LineTerminator (LF, CR, LS, PS) from
  both ends.
\<close>

definition isWhiteSpace :: "code_unit \<Rightarrow> bool" where
  "isWhiteSpace c \<longleftrightarrow>
     c = 0x0009 \<or> c = 0x000A \<or> c = 0x000B \<or> c = 0x000C \<or> c = 0x000D \<or>
     c = 0x0020 \<or> c = 0x00A0 \<or> c = 0x1680 \<or> (0x2000 \<le> c \<and> c \<le> 0x200A) \<or>
     c = 0x2028 \<or> c = 0x2029 \<or> c = 0x202F \<or> c = 0x205F \<or> c = 0x3000 \<or> c = 0xFEFF"

definition trim :: "jsstring \<Rightarrow> jsstring" where
  "trim s = rev (dropWhile isWhiteSpace (rev (dropWhile isWhiteSpace s)))"

definition startsWith :: "jsstring \<Rightarrow> jsstring \<Rightarrow> bool" where
  "startsWith s p \<longleftrightarrow> take (length p) s = p"

text \<open>
  \<open>String.prototype.toLowerCase\<close> on the code units below 128: \<open>A\<close>-\<open>Z\<close> go to
  \<open>a\<close>-\<open>z\<close>, the others stay. The generator applies it only to a name that has passed
  \<open>validNameRegex\<close>, which has no code unit from 128 on; the Unicode mapping of those
  code units is not modelled, and this definition leaves them as they are.
\<close>

definition toLowerCase :: "jsstring \<Rightarrow> jsstring" where
  "toLowerCase s = map (\<lambda>c. if 0x41 \<le> c \<and> c \<le> 0x5A then c + 0x20 else c) s"

text \<open>\<open>Array.prototype.includes\<close> on an array of strings.\<close>

definition array_includes :: "jsstring list \<Rightarrow> jsstring \<Rightarrow> bool" where
  "array_includes xs x \<longleftrightarrow> x \<in> set xs"

section \<open>Errors\<close>

text \<open>
  The generator throws \<open>Error\<close> objects that differ in their message only. Calling a
  property that is not a function throws a \<open>TypeError\<close>. A failing file-system call
  throws a system error with an error code and the path of the call.
\<close>

type_synonym path = "jsstring list"

datatype errno = ENOENT | ENOTDIR | EEXIST | EISDIR | EIO

datatype error =
    Error jsstring
  | TypeError jsstring
  | SystemError errno path

definition EmptyNameError :: error where
  "EmptyNameError = Error (js ''Project name cannot be empty'')"

definition LongNameError :: error where
  "LongNameError = Error (js ''Project name cannot be longer than 214 characters'')"

definition NameCharsError :: error where
  "NameCharsError =
     Error (js ''Project name can only contain letters, numbers, hyphens, and underscores'')"

definition NameStartError :: error where
  "NameStartError = Error (js ''Project name cannot start with a dot or hyphen'')"

definition ReservedNameError :: "jsstring \<Rightarrow> error" where
  "ReservedNameError projectName =
     Error (dquote @ projectName @ dquote @ js '' is a reserved name and cannot be used'')"

definition DirectoryExistsError :: "jsstring \<Rightarrow> error" where
  "DirectoryExistsError projectName =
     Error (js ''Directory '' @ dquote @ projectName @ dquote @ js '' already exists'')"

definition UnknownTemplateError :: "jsstring \<Rightarrow> error" where
  "UnknownTemplateError templateType =
     Error (js ''Template '' @ dquote @ templateType @ dquote @ js '' not found'')"

definition NotAFunctionError :: error where
  "NotAFunctionError = TypeError (js ''template.generate is not a function'')"

text \<open>The errors that \<open>validateProjectName\<close> throws.\<close>

definition InvalidNameError :: "jsstring \<Rightarrow> error \<Rightarrow> bool" where
  "InvalidNameError projectName e \<longleftrightarrow>
     e = EmptyNameError \<or> e = LongNameError \<or> e = NameCharsError \<or>
     e = NameStartError \<or> e = ReservedNameError projectName"

section \<open>The name validator\<close>

text \<open>
  \<open>/^[a-z0-9-_]+$/i\<close>: one or more code units, each in the class. Without the \<open>u\<close> flag
  the \<open>i\<close> flag never lets a code unit from 128 on match one below 128, so the class
  is \<open>a\<close>-\<open>z\<close>, \<open>A\<close>-\<open>Z\<close>, \<open>0\<close>-\<open>9\<close>, hyphen and underscore.
\<close>

definition nameClass :: "code_unit \<Rightarrow> bool" where
  "nameClass c \<longleftrightarrow>
     (0x61 \<le> c \<and> c \<le> 0x7A) \<or> (0x41 \<le> c \<and> c \<le> 0x5A) \<or>
     (0x30 \<le> c \<and> c \<le> 0x39) \<or> c = 0x2D \<or> c = 0x5F"

definition validNameRegex :: "jsstring \<Rightarrow> bool" where
  "validNameRegex s \<longleftrightarrow> s \<noteq> [] \<and> list_all nameClass s"

definition reservedNames :: "jsstring list" where
  "reservedNames =
     [js ''node_modules'', js ''favicon.ico'', js ''package.json'', js ''package-lock.json'']"

text \<open>\<open>validateProjectName\<close>: \<open>None\<close> is the normal return, \<open>Some e\<close> the error thrown.\<close>

definition validateProjectName :: "jsstring \<Rightarrow> error option" where
  "validateProjectName projectName =
     (if projectName = [] \<or> length (trim projectName) = 0 then Some EmptyNameError
      else if length projectName > 214 then Some LongNameError
      else if \<not> validNameRegex projectName then Some NameCharsError
      else if startsWith projectName (js ''.'') \<or> startsWith projectName (js ''-'')
        then Some NameStartError
      else if array_includes reservedNames (toLowerCase projectName)
        then Some (ReservedNameError projectName)
      else None)"

section \<open>Paths\<close>

text \<open>
  A path is the list of its components below the root, as POSIX resolves it. The working
  directory of the process is such a list. \<open>path.join base s\<close> (POSIX flavour) appends the
  string to the base with a separator and normalises: it splits at \<open>/\<close>, drops empty and
  \<open>.\<close> components, and lets \<open>..\<close> remove the component before it (at the root, nothing).
  A trailing separator, which \<open>path.join\<close> keeps in its result, is dropped here. The two
  differ for a string that ends in a separator and names a regular file: the operating
  system does not resolve such a path (\<open>fs.pathExists\<close> is false and nothing is removed),
  while the component list is the path of the file. Only the catch block can see such a
  string, since a name with a separator does not pass validation, and no statement
  below depends on the difference.
\<close>

fun split_sep :: "jsstring \<Rightarrow> jsstring list" where
  "split_sep [] = [[]]"
| "split_sep (c # cs) =
     (if c = 0x2F then [] # split_sep cs
      else (case split_sep cs of [] \<Rightarrow> [[c]] | x # xs \<Rightarrow> (c # x) # xs))"

definition normalize_step :: "path \<Rightarrow> jsstring \<Rightarrow> path" where
  "normalize_step acc c =
     (if c = [] \<or> c = js ''.'' then acc
      else if c = js ''..'' then butlast acc
      else acc @ [c])"

definition path_join :: "path \<Rightarrow> jsstring \<Rightarrow> path" where
  "path_join base s = foldl normalize_step base (split_sep s)"

section \<open>The file system\<close>

text \<open>
  The payload of a generated file is not part of the model: a file holds the name of the
  source constant whose text was written (\<open>Const\<close>), or the name of the source function
  that was applied to the project name (\<open>Applied\<close>).
\<close>

datatype content = Const string | Applied string jsstring

datatype node = File content | Dir

datatype fs_call =
    PathExistsCall path
  | EnsureDirCall path
  | WriteFileCall path
  | WriteJsonCall path
  | RemoveCall path

datatype console_msg = CleanedUp | CleanupWarning

text \<open>
  The world of one process: the directory tree, the working directory, the file-system
  calls made so far (oldest first), the console output, and one flag for each coming
  mutating call that says whether the operating system refuses it (permission denied,
  disk full, device busy; written \<open>EIO\<close>). When the flags run out no call is refused.
\<close>

record world =
  tree :: "path \<Rightarrow> node option"
  cwd :: path
  faults :: "bool list"
  calls :: "fs_call list"
  console :: "console_msg list"

type_synonym action = "world \<Rightarrow> error option \<times> world"

definition os_fault :: "world \<Rightarrow> bool" where
  "os_fault w = (case faults w of [] \<Rightarrow> False | b # _ \<Rightarrow> b)"

definition called :: "fs_call \<Rightarrow> world \<Rightarrow> world" where
  "called c w = w\<lparr>calls := calls w @ [c]\<rparr>"

definition mutating :: "fs_call \<Rightarrow> world \<Rightarrow> world" where
  "mutating c w = called c (w\<lparr>faults := tl (faults w)\<rparr>)"

definition is_file :: "node option \<Rightarrow> bool" where
  "is_file n = (case n of Some (File _) \<Rightarrow> True | _ \<Rightarrow> False)"

text \<open>\<open>fs.pathExists\<close> never throws.\<close>

definition pathExists :: "path \<Rightarrow> world \<Rightarrow> bool \<times> world" where
  "pathExists p w = (tree w p \<noteq> None, called (PathExistsCall p) w)"

text \<open>
  \<open>fs.ensureDir\<close> is \<open>mkdir -p\<close>: it creates the directory and its missing ancestors, and
  fails when a regular file is in the way. A failed call changes nothing.
\<close>

definition ensureDir :: "path \<Rightarrow> action" where
  "ensureDir p w =
     (let w1 = mutating (EnsureDirCall p) w in
      if os_fault w then (Some (SystemError EIO p), w1)
      else if is_file (tree w p) then (Some (SystemError EEXIST p), w1)
      else if list_ex (\<lambda>q. is_file (tree w q)) (prefixes p)
        then (Some (SystemError ENOTDIR p), w1)
      else (None, w1\<lparr>tree := (\<lambda>q. if prefix q p \<and> tree w q = None then Some Dir
                                  else tree w q)\<rparr>))"

text \<open>
  \<open>fs.writeFile\<close> creates or replaces a regular file in an existing directory.
  \<open>fs.writeJson\<close> serialises its object and does the same. Without the directory the
  call fails: with \<open>ENOTDIR\<close> when a regular file lies on the way to it, with \<open>ENOENT\<close>
  when it is just missing.
\<close>

definition write_node :: "fs_call \<Rightarrow> path \<Rightarrow> content \<Rightarrow> action" where
  "write_node c p x w =
     (let w1 = mutating c w in
      if os_fault w then (Some (SystemError EIO p), w1)
      else if p = [] then (Some (SystemError EISDIR p), w1)
      else (case tree w (butlast p) of
              None \<Rightarrow>
                (Some (SystemError
                         (if list_ex (\<lambda>q. is_file (tree w q)) (prefixes (butlast p))
                          then ENOTDIR else ENOENT) p), w1)
            | Some (File _) \<Rightarrow> (Some (SystemError ENOTDIR p), w1)
            | Some Dir \<Rightarrow>
                if tree w p = Some Dir then (Some (SystemError EISDIR p), w1)
                else (None, w1\<lparr>tree := (tree w)(p \<mapsto> File x)\<rparr>)))"

definition writeFile :: "path \<Rightarrow> content \<Rightarrow> action" where
  "writeFile p x = write_node (WriteFileCall p) p x"

definition writeJson :: "path \<Rightarrow> content \<Rightarrow> action" where
  "writeJson p x = write_node (WriteJsonCall p) p x"

text \<open>
  \<open>fs.remove\<close> is \<open>rm -rf\<close>: it removes the path and everything below it, and succeeds
  on a path that does not exist. When the operating system refuses the removal the
  path itself is still there (it is unlinked last); the model leaves the whole tree as
  it was.
\<close>

definition remove :: "path \<Rightarrow> action" where
  "remove p w =
     (let w1 = mutating (RemoveCall p) w in
      if os_fault w then (Some (SystemError EIO p), w1)
      else (None, w1\<lparr>tree := (\<lambda>q. if prefix p q then None else tree w q)\<rparr>))"

text \<open>
  Two conditions on a world that the statements below use: the operating system refuses
  none of the coming calls, and a path and all its ancestors are directories.
\<close>

definition no_faults :: "world \<Rightarrow> bool" where
  "no_faults w \<longleftrightarrow> True \<notin> set (faults w)"

definition dir_chain :: "(path \<Rightarrow> node option) \<Rightarrow> path \<Rightarrow> bool" where
  "dir_chain t p \<longleftrightarrow> list_all (\<lambda>q. t q = Some Dir) (prefixes p)"

text \<open>A sequence of awaited calls: the first error ends it.\<close>

fun run :: "action list \<Rightarrow> action" where
  "run [] w = (None, w)"
| "run (a # as) w = (case a w of (Some e, w1) \<Rightarrow> (Some e, w1) | (None, w1) \<Rightarrow> run as w1)"

section \<open>The templates\<close>

text \<open>
  Each template module exports one function \<open>generate(projectPath, projectName)\<close>, a
  straight line of awaited \<open>fs-extra\<close> calls. The definitions list the calls in the order
  of the source.
\<close>

text \<open>The basic template.\<close>

definition basic_generate :: "path \<Rightarrow> jsstring \<Rightarrow> action" where
  "basic_generate projectPath projectName =
     run
       [ensureDir (path_join projectPath (js ''config'')),
        ensureDir (path_join projectPath (js ''controllers'')),
        ensureDir (path_join projectPath (js ''models'')),
        ensureDir (path_join projectPath (js ''routes'')),
        ensureDir (path_join projectPath (js ''middlewares'')),
        ensureDir (path_join projectPath (js ''utils'')),
        ensureDir (path_join projectPath (js ''public'')),
        writeJson (path_join projectPath (js ''package.json'')) (Applied ''packageJson'' projectName),
        writeFile (path_join projectPath (js ''index.js'')) (Const ''indexJs''),
        writeFile (path_join projectPath (js ''config/db.js'')) (Const ''dbConfig''),
        writeFile (path_join projectPath (js ''controllers/healthController.js'')) (Const ''healthController''),
        writeFile (path_join projectPath (js ''routes/health.js'')) (Const ''healthRoutes''),
        writeFile (path_join projectPath (js ''middlewares/auth.js'')) (Const ''authMiddleware''),
        writeFile (path_join projectPath (js ''utils/logger.js'')) (Const ''logger''),
        writeFile (path_join projectPath (js ''utils/response.js'')) (Const ''responseUtils''),
        writeFile (path_join projectPath (js ''models/README.md'')) (Const ''modelsReadme''),
        writeFile (path_join projectPath (js ''public/index.html'')) (Const ''indexHtml''),
        writeFile (path_join projectPath (js ''.env'')) (Const ''envFile''),
        writeFile (path_join projectPath (js ''README.md'')) (Applied ''readmeFile'' projectName),
        writeFile (path_join projectPath (js ''.gitignore'')) (Const ''gitignoreContent'')]"

text \<open>The chat template.\<close>

definition chatapp_generate :: "path \<Rightarrow> jsstring \<Rightarrow> action" where
  "chatapp_generate projectPath projectName =
     run
       [ensureDir (path_join projectPath (js ''models'')),
        ensureDir (path_join projectPath (js ''routes'')),
        ensureDir (path_join projectPath (js ''middleware'')),
        ensureDir (path_join projectPath (js ''controllers'')),
        ensureDir (path_join projectPath (js ''config'')),
        ensureDir (path_join projectPath (js ''utils'')),
        writeJson (path_join projectPath (js ''package.json'')) (Applied ''packageJson'' projectName),
        writeFile (path_join projectPath (js ''server.js'')) (Const ''mainServerJs''),
        writeFile (path_join projectPath (js ''config/database.js'')) (Const ''databaseConfig''),
        writeFile (path_join projectPath (js ''models/User.js'')) (Const ''userModel''),
        writeFile (path_join projectPath (js ''models/Room.js'')) (Const ''roomModel''),
        writeFile (path_join projectPath (js ''models/Message.js'')) (Const ''messageModel''),
        writeFile (path_join projectPath (js ''middleware/auth.js'')) (Const ''authMiddleware''),
        writeFile (path_join projectPath (js ''controllers/authController.js'')) (Const ''authController''),
        writeFile (path_join projectPath (js ''controllers/roomController.js'')) (Const ''roomController''),
        writeFile (path_join projectPath (js ''controllers/messageController.js'')) (Const ''messageController''),
        writeFile (path_join projectPath (js ''routes/auth.js'')) (Const ''authRoutes''),
        writeFile (path_join projectPath (js ''routes/rooms.js'')) (Const ''roomRoutes''),
        writeFile (path_join projectPath (js ''routes/messages.js'')) (Const ''messageRoutes''),
        writeFile (path_join projectPath (js ''utils/socketHandler.js'')) (Const ''socketHandler''),
        writeFile (path_join projectPath (js ''.env'')) (Const ''envFile''),
        writeFile (path_join projectPath (js ''README.md'')) (Applied ''readmeFile'' projectName),
        writeFile (path_join projectPath (js ''.gitignore'')) (Const ''gitignore literal'')]"

text \<open>The e-commerce template.\<close>

definition ecom_generate :: "path \<Rightarrow> jsstring \<Rightarrow> action" where
  "ecom_generate projectPath projectName =
     run
       [writeJson (path_join projectPath (js ''package.json'')) (Applied ''packageJson'' projectName),
        writeFile (path_join projectPath (js ''server.js'')) (Const ''serverJs''),
        writeFile (path_join projectPath (js ''.env'')) (Const ''envFile''),
        writeFile (path_join projectPath (js ''README.md'')) (Applied ''readmeFile'' projectName),
        writeFile (path_join projectPath (js ''.gitignore'')) (Const ''gitignore literal''),
        ensureDir (path_join projectPath (js ''models'')),
        ensureDir (path_join projectPath (js ''routes'')),
        ensureDir (path_join projectPath (js ''middleware'')),
        ensureDir (path_join projectPath (js ''uploads'')),
        writeFile (path_join projectPath (js ''models/User.js'')) (Const ''userModel''),
        writeFile (path_join projectPath (js ''models/Product.js'')) (Const ''productModel''),
        writeFile (path_join projectPath (js ''models/Cart.js'')) (Const ''cartModel''),
        writeFile (path_join projectPath (js ''models/Order.js'')) (Const ''orderModel''),
        writeFile (path_join projectPath (js ''routes/auth.js'')) (Const ''authRoute''),
        writeFile (path_join projectPath (js ''middleware/auth.js'')) (Const ''authMiddleware''),
        writeFile (path_join projectPath (js ''routes/products.js'')) (Const ''productRoutes''),
        writeFile (path_join projectPath (js ''routes/cart.js'')) (Const ''cartRoutes''),
        writeFile (path_join projectPath (js ''routes/orders.js'')) (Const ''orderRoutes''),
        writeFile (path_join projectPath (js ''routes/payments.js'')) (Const ''paymentRoutes'')]"

text \<open>The blog template.\<close>

definition blog_generate :: "path \<Rightarrow> jsstring \<Rightarrow> action" where
  "blog_generate projectPath projectName =
     run
       [writeJson (path_join projectPath (js ''package.json'')) (Applied ''packageJson'' projectName),
        writeFile (path_join projectPath (js ''server.js'')) (Const ''serverJs''),
        writeFile (path_join projectPath (js ''.env'')) (Const ''envFile''),
        writeFile (path_join projectPath (js ''README.md'')) (Applied ''readmeFile'' projectName),
        writeFile (path_join projectPath (js ''.gitignore'')) (Const ''gitignore literal''),
        ensureDir (path_join projectPath (js ''models'')),
        ensureDir (path_join projectPath (js ''routes'')),
        ensureDir (path_join projectPath (js ''middleware'')),
        writeFile (path_join projectPath (js ''models/User.js'')) (Const ''userModel''),
        writeFile (path_join projectPath (js ''models/Post.js'')) (Const ''postModel''),
        writeFile (path_join projectPath (js ''models/Comment.js'')) (Const ''commentModel''),
        writeFile (path_join projectPath (js ''middleware/auth.js'')) (Const ''authMiddleware''),
        writeFile (path_join projectPath (js ''routes/auth.js'')) (Const ''authRoutes''),
        writeFile (path_join projectPath (js ''routes/posts.js'')) (Const ''postRoutes''),
        writeFile (path_join projectPath (js ''routes/comments.js'')) (Const ''commentRoutes''),
        ensureDir (path_join projectPath (js ''uploads''))]"

text \<open>The AI chat template.\<close>

definition aichat_generate :: "path \<Rightarrow> jsstring \<Rightarrow> action" where
  "aichat_generate projectPath projectName =
     run
       [ensureDir (path_join projectPath (js ''models'')),
        ensureDir (path_join projectPath (js ''routes'')),
        ensureDir (path_join projectPath (js ''middleware'')),
        ensureDir (path_join projectPath (js ''controllers'')),
        ensureDir (path_join projectPath (js ''config'')),
        ensureDir (path_join projectPath (js ''utils'')),
        ensureDir (path_join projectPath (js ''services'')),
        writeJson (path_join projectPath (js ''package.json'')) (Applied ''packageJson'' projectName),
        writeFile (path_join projectPath (js ''server.js'')) (Const ''mainServerJs''),
        writeFile (path_join projectPath (js ''config/database.js'')) (Const ''databaseConfig''),
        writeFile (path_join projectPath (js ''models/User.js'')) (Const ''userModel''),
        writeFile (path_join projectPath (js ''models/Chat.js'')) (Const ''chatModel''),
        writeFile (path_join projectPath (js ''services/openaiService.js'')) (Const ''openaiService''),
        writeFile (path_join projectPath (js ''middleware/auth.js'')) (Const ''authMiddleware''),
        writeFile (path_join projectPath (js ''controllers/authController.js'')) (Const ''authController''),
        writeFile (path_join projectPath (js ''controllers/chatController.js'')) (Const ''chatController''),
        writeFile (path_join projectPath (js ''controllers/usageController.js'')) (Const ''usageController''),
        writeFile (path_join projectPath (js ''routes/auth.js'')) (Const ''authRoutes''),
        writeFile (path_join projectPath (js ''routes/chat.js'')) (Const ''chatRoutes''),
        writeFile (path_join projectPath (js ''routes/usage.js'')) (Const ''usageRoutes''),
        writeFile (path_join projectPath (js ''utils/socketHandler.js'')) (Const ''socketHandler''),
        writeFile (path_join projectPath (js ''.env'')) (Const ''envFile''),
        writeFile (path_join projectPath (js ''README.md'')) (Applied ''readmeFile'' projectName),
        writeFile (path_join projectPath (js ''.gitignore'')) (Const ''gitignore literal'')]"

section \<open>The template registry\<close>

text \<open>
  \<open>templates\<close> is an object literal with five own properties. \<open>templates[templateType]\<close>
  is a property read: a key that is not an own property is looked up in
  \<open>Object.prototype\<close>, whose members are functions (and, for \<open>__proto__\<close>, the prototype
  object itself): truthy values without a \<open>generate\<close> property. Any other key gives
  \<open>undefined\<close>.
\<close>

datatype jsvalue =
    Undefined
  | TemplateModule "path \<Rightarrow> jsstring \<Rightarrow> action"
  | PrototypeMember

definition templates :: "(jsstring \<times> (path \<Rightarrow> jsstring \<Rightarrow> action)) list" where
  "templates =
     [(js ''basic'', basic_generate),
      (js ''chatapp'', chatapp_generate),
      (js ''ecom'', ecom_generate),
      (js ''blog'', blog_generate),
      (js ''aichat'', aichat_generate)]"

definition object_prototype :: "jsstring list" where
  "object_prototype =
     [js ''constructor'', js ''__defineGetter__'', js ''__defineSetter__'',
      js ''hasOwnProperty'', js ''__lookupGetter__'', js ''__lookupSetter__'',
      js ''isPrototypeOf'', js ''propertyIsEnumerable'', js ''toString'', js ''valueOf'',
      js ''__proto__'', js ''toLocaleString'']"

definition get_property ::
  "(jsstring \<times> (path \<Rightarrow> jsstring \<Rightarrow> action)) list \<Rightarrow> jsstring \<Rightarrow> jsvalue" where
  "get_property obj key =
     (case map_of obj key of
        Some g \<Rightarrow> TemplateModule g
      | None \<Rightarrow> if key \<in> set object_prototype then PrototypeMember else Undefined)"

text \<open>\<open>template.generate(projectPath, projectName)\<close> on a truthy \<open>template\<close>.\<close>

fun call_generate :: "jsvalue \<Rightarrow> path \<Rightarrow> jsstring \<Rightarrow> action" where
  "call_generate (TemplateModule g) projectPath projectName w = g projectPath projectName w"
| "call_generate _ projectPath projectName w = (Some NotAFunctionError, w)"

section \<open>The generator\<close>

text \<open>The body of the \<open>try\<close> block of \<open>generateProject\<close>.\<close>

definition generateProject_try :: "jsstring \<Rightarrow> jsstring \<Rightarrow> action" where
  "generateProject_try projectName templateType w =
     (case validateProjectName projectName of
        Some e \<Rightarrow> (Some e, w)
      | None \<Rightarrow>
          (let projectPath = path_join (cwd w) projectName;
               (ex, w1) = pathExists projectPath w
           in if ex then (Some (DirectoryExistsError projectName), w1)
              else (case get_property templates templateType of
                      Undefined \<Rightarrow> (Some (UnknownTemplateError templateType), w1)
                    | template \<Rightarrow>
                        (case ensureDir projectPath w1 of
                           (Some e, w2) \<Rightarrow> (Some e, w2)
                         | (None, w2) \<Rightarrow>
                             call_generate template projectPath projectName w2))))"

text \<open>
  The \<open>catch\<close> block: it computes the path again, removes it when it exists, prints a
  line, and throws the error it caught. An error of the removal is caught and printed.
\<close>

definition generateProject_catch :: "jsstring \<Rightarrow> error \<Rightarrow> action" where
  "generateProject_catch projectName error w =
     (let projectPath = path_join (cwd w) projectName;
          (ex, w1) = pathExists projectPath w
      in if ex
         then (case remove projectPath w1 of
                 (None, w2) \<Rightarrow> (Some error, w2\<lparr>console := console w2 @ [CleanedUp]\<rparr>)
               | (Some cleanupError, w2) \<Rightarrow>
                   (Some error, w2\<lparr>console := console w2 @ [CleanupWarning]\<rparr>))
         else (Some error, w1))"

definition generateProject :: "jsstring \<Rightarrow> jsstring \<Rightarrow> action" where
  "generateProject projectName templateType w =
     (case generateProject_try projectName templateType w of
        (None, w1) \<Rightarrow> (None, w1)
      | (Some error, w1) \<Rightarrow> generateProject_catch projectName error w1)"

section \<open>Observations and example worlds\<close>

text \<open>
  The calls that a run adds to the log, and the calls that create something.
\<close>

definition new_calls :: "world \<Rightarrow> world \<Rightarrow> fs_call list" where
  "new_calls w w' = drop (length (calls w)) (calls w')"

fun creating :: "fs_call \<Rightarrow> bool" where
  "creating (EnsureDirCall _) = True"
| "creating (WriteFileCall _) = True"
| "creating (WriteJsonCall _) = True"
| "creating _ = False"

text \<open>
  A process in \<open>/home\<close>, with nothing else on the disk, and variants of it: with a
  directory \<open>existing-dir\<close> that holds a file, with an installed \<open>node_modules\<close>, with
  a disk that refuses the fifth mutating call, and with one that refuses the fifth and
  the sixth.
\<close>

definition world_home :: world where
  "world_home =
     \<lparr>tree = [[] \<mapsto> Dir, [js ''home''] \<mapsto> Dir],
      cwd = [js ''home''], faults = [], calls = [], console = []\<rparr>"

definition world_existing :: world where
  "world_existing =
     world_home\<lparr>tree := (tree world_home)
       ([js ''home'', js ''existing-dir''] \<mapsto> Dir,
        [js ''home'', js ''existing-dir'', js ''notes.txt''] \<mapsto> File (Const ''notes''))\<rparr>"

definition world_node_modules :: world where
  "world_node_modules =
     world_home\<lparr>tree := (tree world_home)
       ([js ''home'', js ''node_modules''] \<mapsto> Dir,
        [js ''home'', js ''node_modules'', js ''express''] \<mapsto> Dir)\<rparr>"

definition world_disk_full :: world where
  "world_disk_full = world_home\<lparr>faults := [False, False, False, False, True]\<rparr>"

definition world_locked :: world where
  "world_locked = world_home\<lparr>faults := [False, False, False, False, True, True]\<rparr>"

section \<open>Properties of the name validator\<close>

lemma trim_empty_iff: "length (trim s) = 0 \<longleftrightarrow> list_all isWhiteSpace s"
proof -
  let ?t = "dropWhile isWhiteSpace s"
  show ?thesis
  proof (cases "?t = []")
    case True
    then have "\<forall>x\<in>set s. isWhiteSpace x" by (metis dropWhile_eq_Nil_conv)
    moreover have "trim s = []" unfolding trim_def True by simp
    ultimately show ?thesis by (simp add: list_all_iff)
  next
    case False
    then have "\<not> isWhiteSpace (hd ?t)" by (rule hd_dropWhile)
    moreover from False have "hd ?t \<in> set (rev ?t)" by simp
    ultimately have "dropWhile isWhiteSpace (rev ?t) \<noteq> []"
      by (metis dropWhile_eq_Nil_conv)
    then have a: "trim s \<noteq> []" by (simp add: trim_def)
    from False have b: "\<not> (\<forall>x\<in>set s. isWhiteSpace x)"
      by (metis dropWhile_eq_Nil_conv)
    from a b show ?thesis by (auto simp: list_all_iff)
  qed
qed

lemma nameClass_not_space: "nameClass c \<Longrightarrow> \<not> isWhiteSpace c"
  unfolding nameClass_def isWhiteSpace_def by (auto simp: word_le_def word_less_def)

lemma in_alphabet_nameClass:
  "c \<in> set (js ''abcdefghijklmnopqrstuvwxyzABCDEFGHIJKLMNOPQRSTUVWXYZ0123456789-_'') \<Longrightarrow> nameClass c"
  unfolding nameClass_def js_def by auto

lemma nameClass_lower_not_dot:
  "nameClass c \<Longrightarrow> (if 0x41 \<le> c \<and> c \<le> 0x5A then c + 0x20 else c) \<noteq> 0x2E"
  unfolding nameClass_def by (auto simp: word_le_def word_less_def)

lemma valid_regex_trim: "validNameRegex s \<Longrightarrow> length (trim s) \<noteq> 0"
  unfolding trim_empty_iff validNameRegex_def
  by (cases s) (auto dest: nameClass_not_space)

lemma lower_no_dot: "list_all nameClass s \<Longrightarrow> 0x2E \<notin> set (toLowerCase s)"
  unfolding toLowerCase_def list_all_iff using nameClass_lower_not_dot by fastforce

lemma validate_Reserved_only:
  "validateProjectName name = Some (ReservedNameError name) \<Longrightarrow>
     validNameRegex name \<and> toLowerCase name \<in> set reservedNames"
  unfolding validateProjectName_def
  by (auto simp: ReservedNameError_def EmptyNameError_def LongNameError_def NameCharsError_def
      NameStartError_def dquote_def js_def array_includes_def split: if_splits)

lemma trim_Nil_iff: "trim s = [] \<longleftrightarrow> list_all isWhiteSpace s"
  using trim_empty_iff [of s] by simp

lemma lower_ws: "list_all isWhiteSpace s \<Longrightarrow> toLowerCase s = s"
  unfolding toLowerCase_def list_all_iff isWhiteSpace_def
  by (intro map_idI) (auto simp: word_le_def word_less_def)

lemma dotted_reserved:
  assumes h: "toLowerCase name \<in> {js ''favicon.ico'', js ''package.json'', js ''package-lock.json''}"
  shows "validateProjectName name = Some NameCharsError"
proof -
  have "length (toLowerCase name) = length name" by (simp add: toLowerCase_def)
  with h have len: "name \<noteq> [] \<and> length name \<le> 214"
    by (auto simp: js_def)
  have notws: "\<not> list_all isWhiteSpace name"
  proof
    assume ws: "list_all isWhiteSpace name"
    then have "toLowerCase name = name" by (rule lower_ws)
    with h have "name \<in> {js ''favicon.ico'', js ''package.json'', js ''package-lock.json''}"
      by simp
    with ws show False by (auto simp: js_def isWhiteSpace_def)
  qed
  from h have "0x2E \<in> set (toLowerCase name)" by (auto simp: js_def)
  then have "\<not> list_all nameClass name" using lower_no_dot by blast
  with len notws show ?thesis
    by (simp add: validateProjectName_def trim_Nil_iff validNameRegex_def)
qed

text \<open>Every name that breaks one of the rules is rejected with an error of the validator.\<close>

lemma validate_rejects:
  assumes "name = [] \<or> list_all isWhiteSpace name \<or> 214 < length name \<or>
           (\<exists>c\<in>set name. \<not> nameClass c) \<or>
           startsWith name (js ''.'') \<or> startsWith name (js ''-'') \<or>
           toLowerCase name \<in> set reservedNames"
  shows "\<exists>e. validateProjectName name = Some e \<and> InvalidNameError name e"
  using assms
  by (auto simp: validateProjectName_def InvalidNameError_def trim_Nil_iff validNameRegex_def
      list_all_iff array_includes_def)

text \<open>
  Claim C5. A name that is not empty, has at most 214 code units, consists of letters,
  digits, hyphens and underscores only, does not start with a dot or a hyphen and is not,
  in lower case, one of the four reserved names, passes \<open>validateProjectName\<close>: the
  function returns normally and throws nothing.
\<close>

theorem validate_accepts_valid_names:
  assumes "name \<noteq> []"
    and "\<forall>c\<in>set name. c \<in> set (js ''abcdefghijklmnopqrstuvwxyzABCDEFGHIJKLMNOPQRSTUVWXYZ0123456789-_'')"
    and "1 \<le> length name" and "length name \<le> 214"
    and "\<not> startsWith name (js ''.'')" and "\<not> startsWith name (js ''-'')"
    and "toLowerCase name \<notin>
           {js ''node_modules'', js ''favicon.ico'', js ''package.json'', js ''package-lock.json''}"
  shows "validateProjectName name = None"
proof -
  from assms(1,2) have v: "validNameRegex name"
    unfolding validNameRegex_def list_all_iff using in_alphabet_nameClass by blast
  then have "length (trim name) \<noteq> 0" by (rule valid_regex_trim)
  with v assms show ?thesis
    by (simp add: validateProjectName_def array_includes_def reservedNames_def)
qed

theorem validate_accepts_valid_names_witness:
  "validateProjectName (js ''my-app'') = None"
proof (rule validate_accepts_valid_names)
  show "js ''my-app'' \<noteq> []" by (simp add: js_def)
  show "\<forall>c\<in>set (js ''my-app''). c \<in> set (js ''abcdefghijklmnopqrstuvwxyzABCDEFGHIJKLMNOPQRSTUVWXYZ0123456789-_'')"
    by (simp add: js_def)
  show "1 \<le> length (js ''my-app'')" by (simp add: js_def)
  show "length (js ''my-app'') \<le> 214" by (simp add: js_def)
  show "\<not> startsWith (js ''my-app'') (js ''.'')" by (simp add: js_def startsWith_def)
  show "\<not> startsWith (js ''my-app'') (js ''-'')" by (simp add: js_def startsWith_def)
  show "toLowerCase (js ''my-app'') \<notin>
           {js ''node_modules'', js ''favicon.ico'', js ''package.json'', js ''package-lock.json''}"
    by (simp add: js_def toLowerCase_def)
qed

text \<open>
  Claim C10. When \<open>validateProjectName\<close> throws the reserved-name error, the name is
  \<open>node_modules\<close> up to case. A name that is \<open>favicon.ico\<close>, \<open>package.json\<close> or
  \<open>package-lock.json\<close> up to case contains a dot and is rejected by the character check
  before the reserved-name check is reached.
\<close>

theorem reserved_branch_only_node_modules:
  "(validateProjectName name = Some (ReservedNameError name) \<longrightarrow>
      toLowerCase name = js ''node_modules'') \<and>
   (toLowerCase name \<in> {js ''favicon.ico'', js ''package.json'', js ''package-lock.json''} \<longrightarrow>
      validateProjectName name = Some NameCharsError)"
proof (intro conjI impI)
  assume "validateProjectName name = Some (ReservedNameError name)"
  then have v: "validNameRegex name" and r: "toLowerCase name \<in> set reservedNames"
    using validate_Reserved_only by blast+
  from v have "0x2E \<notin> set (toLowerCase name)"
    by (simp add: validNameRegex_def lower_no_dot)
  with r show "toLowerCase name = js ''node_modules''"
    by (auto simp: reservedNames_def js_def)
next
  assume "toLowerCase name \<in> {js ''favicon.ico'', js ''package.json'', js ''package-lock.json''}"
  then show "validateProjectName name = Some NameCharsError" by (rule dotted_reserved)
qed

theorem reserved_branch_only_node_modules_witness:
  "validateProjectName (js ''Node_Modules'') = Some (ReservedNameError (js ''Node_Modules'')) \<and>
   toLowerCase (js ''Node_Modules'') = js ''node_modules'' \<and>
   toLowerCase (js ''Package.JSON'') \<in> {js ''favicon.ico'', js ''package.json'', js ''package-lock.json''} \<and>
   validateProjectName (js ''Package.JSON'') = Some NameCharsError"
proof -
  have a: "validateProjectName (js ''Node_Modules'') = Some (ReservedNameError (js ''Node_Modules''))"
    by (simp add: validateProjectName_def js_def trim_def isWhiteSpace_def validNameRegex_def
        nameClass_def startsWith_def array_includes_def reservedNames_def toLowerCase_def)
  have b: "toLowerCase (js ''Package.JSON'') \<in> {js ''favicon.ico'', js ''package.json'', js ''package-lock.json''}"
    by (simp add: js_def toLowerCase_def)
  from a b reserved_branch_only_node_modules [of "js ''Node_Modules''"]
    reserved_branch_only_node_modules [of "js ''Package.JSON''"]
  show ?thesis by blast
qed

section \<open>Properties of the file system\<close>

subsection \<open>Worlds\<close>

lemma called_simps [simp]:
  "tree (called c w) = tree w" "cwd (called c w) = cwd w" "faults (called c w) = faults w"
  "calls (called c w) = calls w @ [c]" "console (called c w) = console w"
  by (simp_all add: called_def)

lemma mutating_simps [simp]:
  "tree (mutating c w) = tree w" "cwd (mutating c w) = cwd w"
  "faults (mutating c w) = tl (faults w)"
  "calls (mutating c w) = calls w @ [c]" "console (mutating c w) = console w"
  by (simp_all add: mutating_def)

lemma mutating_tree_update [simp]:
  "mutating c (w\<lparr>tree := t\<rparr>) = (mutating c w)\<lparr>tree := t\<rparr>"
  by (simp add: mutating_def called_def)

lemma called_tree_update [simp]:
  "called c (w\<lparr>tree := t\<rparr>) = (called c w)\<lparr>tree := t\<rparr>"
  by (simp add: called_def)

lemma os_fault_simps [simp]:
  "os_fault (w\<lparr>tree := t\<rparr>) = os_fault w" "os_fault (called c w) = os_fault w"
  "os_fault (w\<lparr>console := k\<rparr>) = os_fault w"
  by (simp_all add: os_fault_def)

lemma no_faults_simps [simp]:
  "no_faults (w\<lparr>tree := t\<rparr>) = no_faults w" "no_faults (called c w) = no_faults w"
  by (simp_all add: no_faults_def)

lemma no_faults_mutating [simp]: "no_faults w \<Longrightarrow> no_faults (mutating c w)"
  unfolding no_faults_def by (cases "faults w") auto

lemma no_faults_os_fault [simp]: "no_faults w \<Longrightarrow> \<not> os_fault w"
  unfolding no_faults_def os_fault_def by (cases "faults w") auto

subsection \<open>Directory chains\<close>

lemma dir_chain_iff: "dir_chain t p \<longleftrightarrow> (\<forall>q. prefix q p \<longrightarrow> t q = Some Dir)"
  by (auto simp: dir_chain_def list_all_iff in_set_prefixes)

lemma dir_chain_self: "dir_chain t p \<Longrightarrow> t p = Some Dir"
  by (simp add: dir_chain_iff)

lemma dir_chain_update [simp]:
  "dir_chain t p \<Longrightarrow> \<not> prefix k p \<or> v = Dir \<Longrightarrow> dir_chain (t(k \<mapsto> v)) p"
  by (auto simp: dir_chain_iff)

lemma dir_chain_snoc: "dir_chain t d \<Longrightarrow> dir_chain (t(d @ [c] \<mapsto> Dir)) (d @ [c])"
  by (auto simp: dir_chain_iff prefix_snoc)

subsection \<open>File-system calls that succeed\<close>

lemma ensureDir_ok:
  assumes "\<not> os_fault w" and "k \<noteq> []" and "dir_chain (tree w) (butlast k)"
    and "\<not> is_file (tree w k)"
  shows "ensureDir k w = (None, (mutating (EnsureDirCall k) w)\<lparr>tree := (tree w)(k \<mapsto> Dir)\<rparr>)"
proof -
  from assms(2) have k: "k = butlast k @ [last k]" by simp
  have pre: "\<And>q. prefix q k \<longleftrightarrow> prefix q (butlast k) \<or> q = k"
    by (metis k prefix_snoc)
  from assms(3) have chain: "\<And>q. prefix q (butlast k) \<Longrightarrow> tree w q = Some Dir"
    by (simp add: dir_chain_iff)
  have nofile: "\<not> list_ex (\<lambda>q. is_file (tree w q)) (prefixes k)"
    using assms(4) chain by (auto simp: list_ex_iff in_set_prefixes pre is_file_def)
  from assms(4) have cases: "tree w k = None \<or> tree w k = Some Dir"
    by (cases "tree w k") (auto simp: is_file_def split: node.splits)
  have "(\<lambda>q. if prefix q k \<and> tree w q = None then Some Dir else tree w q) = (tree w)(k \<mapsto> Dir)"
  proof
    fix q show "(if prefix q k \<and> tree w q = None then Some Dir else tree w q) = ((tree w)(k \<mapsto> Dir)) q"
      using cases chain [of q] by (auto simp: pre)
  qed
  with assms(1,4) nofile show ?thesis by (simp add: ensureDir_def Let_def)
qed

lemma write_node_ok:
  assumes "\<not> os_fault w" and "k \<noteq> []" and "tree w (butlast k) = Some Dir"
    and "tree w k \<noteq> Some Dir"
  shows "write_node c k x w = (None, (mutating c w)\<lparr>tree := (tree w)(k \<mapsto> File x)\<rparr>)"
  using assms by (simp add: write_node_def Let_def)

lemma remove_ok:
  "\<not> os_fault w \<Longrightarrow>
   remove p w = (None, (mutating (RemoveCall p) w)\<lparr>tree := (\<lambda>q. if prefix p q then None else tree w q)\<rparr>)"
  by (simp add: remove_def Let_def)

lemma remove_refused:
  "os_fault w \<Longrightarrow> remove p w = (Some (SystemError EIO p), mutating (RemoveCall p) w)"
  by (simp add: remove_def Let_def)

lemma run_keeps:
  "list_all (\<lambda>a. \<forall>w. P w \<longrightarrow> P (snd (a w))) as \<Longrightarrow> P w \<Longrightarrow> P (snd (run as w))"
proof (induction as arbitrary: w)
  case Nil
  then show ?case by simp
next
  case (Cons a as)
  from Cons.prems have step: "P (snd (a w))" by simp
  show ?case
  proof (cases "a w")
    case (Pair r w1)
    with step have "P w1" by simp
    with Cons Pair show ?thesis by (cases r) auto
  qed
qed

lemma ensureDir_keeps:
  "cwd (snd (ensureDir k w)) = cwd w"
  "tree w p = Some Dir \<Longrightarrow> tree (snd (ensureDir k w)) p = Some Dir"
  by (simp_all add: ensureDir_def Let_def)

lemma write_node_keeps:
  "cwd (snd (write_node c k x w)) = cwd w"
  "k \<noteq> p \<Longrightarrow> tree (snd (write_node c k x w)) p = tree w p"
  by (simp_all add: write_node_def Let_def split: option.splits node.splits)

lemma prefix_append_self [simp]: "prefix (p @ x # xs) p = False"
  by (simp add: same_prefix_nil)

lemma butlast_append_Cons [simp]: "butlast (p @ x # xs) = p @ butlast (x # xs)"
  by (simp add: butlast_append)

lemma write_node_refused:
  "os_fault w \<Longrightarrow> write_node c k x w = (Some (SystemError EIO k), mutating c w)"
  by (simp add: write_node_def Let_def)

lemmas world_defs = world_home_def world_existing_def world_node_modules_def
  world_disk_full_def world_locked_def

lemma ensureDir_result:
  "tree w p = None \<Longrightarrow> fst (ensureDir p w) = None \<Longrightarrow>
   tree (snd (ensureDir p w)) p = Some Dir \<and> cwd (snd (ensureDir p w)) = cwd w"
  by (simp add: ensureDir_def Let_def split: if_splits)

lemma run_template_keeps:
  assumes "list_all (\<lambda>a. \<forall>w. (cwd w = c \<and> tree w p = Some Dir) \<longrightarrow>
             (cwd (snd (a w)) = c \<and> tree (snd (a w)) p = Some Dir)) as"
    and "cwd w = c" and "tree w p = Some Dir"
  shows "cwd (snd (run as w)) = c \<and> tree (snd (run as w)) p = Some Dir"
  using run_keeps [where P = "\<lambda>w. cwd w = c \<and> tree w p = Some Dir", OF assms(1)] assms(2,3)
  by simp

lemma append_Cons_neq_self [simp]: "p @ x # xs \<noteq> p"
  by simp

lemma template_keeps:
  assumes "get_property templates kind = TemplateModule g" and "tree w p = Some Dir"
  shows "cwd (snd (g p n w)) = cwd w \<and> tree (snd (g p n w)) p = Some Dir"
proof -
  from assms(1) have "g = basic_generate \<or> g = chatapp_generate \<or> g = ecom_generate \<or>
      g = blog_generate \<or> g = aichat_generate"
    by (auto simp: get_property_def templates_def split: if_splits)
  moreover have "cwd (snd (basic_generate p n w)) = cwd w \<and> tree (snd (basic_generate p n w)) p = Some Dir"
    unfolding basic_generate_def
    by (rule run_template_keeps)
      (simp_all add: assms(2) writeFile_def writeJson_def ensureDir_keeps write_node_keeps
        path_join_def normalize_step_def js_def)
  moreover have "cwd (snd (chatapp_generate p n w)) = cwd w \<and> tree (snd (chatapp_generate p n w)) p = Some Dir"
    unfolding chatapp_generate_def
    by (rule run_template_keeps)
      (simp_all add: assms(2) writeFile_def writeJson_def ensureDir_keeps write_node_keeps
        path_join_def normalize_step_def js_def)
  moreover have "cwd (snd (ecom_generate p n w)) = cwd w \<and> tree (snd (ecom_generate p n w)) p = Some Dir"
    unfolding ecom_generate_def
    by (rule run_template_keeps)
      (simp_all add: assms(2) writeFile_def writeJson_def ensureDir_keeps write_node_keeps
        path_join_def normalize_step_def js_def)
  moreover have "cwd (snd (blog_generate p n w)) = cwd w \<and> tree (snd (blog_generate p n w)) p = Some Dir"
    unfolding blog_generate_def
    by (rule run_template_keeps)
      (simp_all add: assms(2) writeFile_def writeJson_def ensureDir_keeps write_node_keeps
        path_join_def normalize_step_def js_def)
  moreover have "cwd (snd (aichat_generate p n w)) = cwd w \<and> tree (snd (aichat_generate p n w)) p = Some Dir"
    unfolding aichat_generate_def
    by (rule run_template_keeps)
      (simp_all add: assms(2) writeFile_def writeJson_def ensureDir_keeps write_node_keeps
        path_join_def normalize_step_def js_def)
  ultimately show ?thesis by blast
qed

section \<open>Properties of the generator\<close>

subsection \<open>Paths of valid names\<close>

lemma split_sep_no_sep: "0x2F \<notin> set s \<Longrightarrow> split_sep s = [s]"
  by (induction s) auto

lemma nameClass_not_sep: "nameClass c \<Longrightarrow> c \<noteq> 0x2F \<and> c \<noteq> 0x2E"
  unfolding nameClass_def by (auto simp: word_le_def word_less_def)

lemma path_join_valid:
  assumes "validNameRegex name"
  shows "path_join base name = base @ [name]"
proof -
  from assms have ne: "name \<noteq> []" and cls: "\<forall>c\<in>set name. nameClass c"
    by (simp_all add: validNameRegex_def list_all_iff)
  from cls have "0x2F \<notin> set name" and nodot: "0x2E \<notin> set name"
    using nameClass_not_sep by blast+
  then have "split_sep name = [name]" by (simp add: split_sep_no_sep)
  moreover from nodot have "name \<noteq> js ''.''" and "name \<noteq> js ''..''"
    by (auto simp: js_def)
  ultimately show ?thesis using ne by (simp add: path_join_def normalize_step_def)
qed

lemma validate_None_regex: "validateProjectName name = None \<Longrightarrow> validNameRegex name"
  by (simp add: validateProjectName_def split: if_splits)

lemma path_join_validated:
  "validateProjectName name = None \<Longrightarrow> path_join base name = base @ [name]"
  by (simp add: validate_None_regex path_join_valid)

lemma path_join_empty: "path_join base (js '''') = base"
  by (simp add: path_join_def normalize_step_def js_def)

lemma validate_empty: "validateProjectName (js '''') = Some EmptyNameError"
  by (simp add: validateProjectName_def js_def)

subsection \<open>The catch block\<close>

lemma catch_error [simp]: "fst (generateProject_catch name e w) = Some e"
  by (simp add: generateProject_catch_def pathExists_def Let_def split: prod.splits option.splits)

lemma catch_absent:
  "tree w (path_join (cwd w) name) = None \<Longrightarrow>
   generateProject_catch name e w = (Some e, called (PathExistsCall (path_join (cwd w) name)) w)"
  by (simp add: generateProject_catch_def pathExists_def Let_def)

lemma catch_removes:
  "tree w (path_join (cwd w) name) \<noteq> None \<Longrightarrow> \<not> os_fault w \<Longrightarrow>
   generateProject_catch name e w =
     (Some e, (mutating (RemoveCall (path_join (cwd w) name))
                 (called (PathExistsCall (path_join (cwd w) name)) w))
        \<lparr>tree := (\<lambda>q. if prefix (path_join (cwd w) name) q then None else tree w q),
         console := console w @ [CleanedUp]\<rparr>)"
  by (simp add: generateProject_catch_def pathExists_def Let_def remove_ok cong: if_cong)

lemma catch_refused:
  "tree w (path_join (cwd w) name) \<noteq> None \<Longrightarrow> os_fault w \<Longrightarrow>
   generateProject_catch name e w =
     (Some e, (mutating (RemoveCall (path_join (cwd w) name))
                 (called (PathExistsCall (path_join (cwd w) name)) w))
        \<lparr>console := console w @ [CleanupWarning]\<rparr>)"
  by (simp add: generateProject_catch_def pathExists_def Let_def remove_refused)

subsection \<open>The checks of the try block\<close>

lemma generate_invalid:
  "validateProjectName name = Some e \<Longrightarrow>
   generateProject name kind w = generateProject_catch name e w"
  by (simp add: generateProject_def generateProject_try_def)

lemma generate_existing:
  "validateProjectName name = None \<Longrightarrow> tree w (path_join (cwd w) name) \<noteq> None \<Longrightarrow>
   generateProject name kind w =
     generateProject_catch name (DirectoryExistsError name)
       (called (PathExistsCall (path_join (cwd w) name)) w)"
  by (simp add: generateProject_def generateProject_try_def pathExists_def Let_def)

lemma generate_unknown:
  "validateProjectName name = None \<Longrightarrow> tree w (path_join (cwd w) name) = None \<Longrightarrow>
   get_property templates kind = Undefined \<Longrightarrow>
   generateProject name kind w =
     generateProject_catch name (UnknownTemplateError kind)
       (called (PathExistsCall (path_join (cwd w) name)) w)"
  by (simp add: generateProject_def generateProject_try_def pathExists_def Let_def)

text \<open>
  Claim C4. Called with the empty string, \<open>generateProject\<close> fails with the empty-name
  error of the validator; the path that the catch block computes is the working
  directory itself; and when that directory exists and the operating system does not
  refuse the removal, the catch block removes it with everything below it before it
  throws the error again.
\<close>

theorem empty_name_removes_cwd:
  "validateProjectName (js '''') = Some EmptyNameError \<and>
   path_join (cwd w) (js '''') = cwd w \<and>
   fst (generateProject (js '''') templateType w) = Some EmptyNameError \<and>
   (tree w (cwd w) \<noteq> None \<and> \<not> os_fault w \<longrightarrow>
      RemoveCall (cwd w) \<in> set (calls (snd (generateProject (js '''') templateType w))) \<and>
      (\<forall>q. prefix (cwd w) q \<longrightarrow>
         tree (snd (generateProject (js '''') templateType w)) q = None))"
  by (simp add: validate_empty path_join_empty generate_invalid catch_removes)

theorem empty_name_removes_cwd_witness:
  "tree world_existing (cwd world_existing) \<noteq> None \<and> \<not> os_fault world_existing \<and>
   cwd world_existing = [js ''home''] \<and>
   fst (generateProject (js '''') (js ''basic'') world_existing) = Some EmptyNameError \<and>
   tree (snd (generateProject (js '''') (js ''basic'') world_existing)) [js ''home''] = None \<and>
   tree (snd (generateProject (js '''') (js ''basic'') world_existing))
     [js ''home'', js ''existing-dir'', js ''notes.txt''] = None"
proof -
  have a: "tree world_existing (cwd world_existing) \<noteq> None" "\<not> os_fault world_existing"
    "cwd world_existing = [js ''home'']"
    by (simp_all add: world_existing_def world_home_def os_fault_def)
  have b: "prefix (cwd world_existing) [js ''home'']"
    "prefix (cwd world_existing) [js ''home'', js ''existing-dir'', js ''notes.txt'']"
    by (simp_all add: a)
  from a b empty_name_removes_cwd [of world_existing "js ''basic''"]
  show ?thesis by blast
qed

text \<open>
  Claim C1, at the input that shows the defect. In \<open>/home\<close> with a directory
  \<open>existing-dir\<close> that holds a file, \<open>generateProject "existing-dir" "blog"\<close> fails with
  the directory-exists error, and afterwards the directory and the file are gone: the
  catch block has removed the directory that was there before the call.
\<close>

theorem existing_directory_is_removed:
  "validateProjectName (js ''existing-dir'') = None \<and>
   tree world_existing [js ''home'', js ''existing-dir'', js ''notes.txt''] =
     Some (File (Const ''notes'')) \<and>
   fst (generateProject (js ''existing-dir'') (js ''blog'') world_existing) =
     Some (DirectoryExistsError (js ''existing-dir'')) \<and>
   tree (snd (generateProject (js ''existing-dir'') (js ''blog'') world_existing))
     [js ''home'', js ''existing-dir''] = None \<and>
   tree (snd (generateProject (js ''existing-dir'') (js ''blog'') world_existing))
     [js ''home'', js ''existing-dir'', js ''notes.txt''] = None"
proof -
  have v: "validateProjectName (js ''existing-dir'') = None"
    by (simp add: validateProjectName_def js_def trim_def isWhiteSpace_def validNameRegex_def
        nameClass_def startsWith_def array_includes_def reservedNames_def toLowerCase_def)
  have p: "path_join (cwd world_existing) (js ''existing-dir'') = [js ''home'', js ''existing-dir'']"
    by (simp add: path_join_validated v world_defs)
  have t: "tree world_existing [js ''home'', js ''existing-dir''] \<noteq> None"
    "tree world_existing [js ''home'', js ''existing-dir'', js ''notes.txt''] =
       Some (File (Const ''notes''))"
    by (simp_all add: world_defs)
  have f: "\<not> os_fault world_existing" by (simp add: world_defs os_fault_def)
  show ?thesis
    by (simp add: v t generate_existing p catch_removes f)
qed

text \<open>
  Claim C2, at the input that shows the defect. In \<open>/home\<close> with an installed
  \<open>node_modules\<close>, \<open>generateProject "node_modules" "basic"\<close> fails with the reserved-name
  error of the validator, and afterwards \<open>node_modules\<close> and what it held are gone.
\<close>

theorem invalid_name_removes_directory:
  "fst (generateProject (js ''node_modules'') (js ''basic'') world_node_modules) =
     Some (ReservedNameError (js ''node_modules'')) \<and>
   InvalidNameError (js ''node_modules'') (ReservedNameError (js ''node_modules'')) \<and>
   tree world_node_modules [js ''home'', js ''node_modules'', js ''express''] = Some Dir \<and>
   tree (snd (generateProject (js ''node_modules'') (js ''basic'') world_node_modules))
     [js ''home'', js ''node_modules''] = None \<and>
   tree (snd (generateProject (js ''node_modules'') (js ''basic'') world_node_modules))
     [js ''home'', js ''node_modules'', js ''express''] = None"
proof -
  have v: "validateProjectName (js ''node_modules'') = Some (ReservedNameError (js ''node_modules''))"
    by (simp add: validateProjectName_def js_def trim_def isWhiteSpace_def validNameRegex_def
        nameClass_def startsWith_def array_includes_def reservedNames_def toLowerCase_def)
  have p: "path_join (cwd world_node_modules) (js ''node_modules'') = [js ''home'', js ''node_modules'']"
    by (simp add: path_join_def normalize_step_def js_def world_defs)
  have t: "tree world_node_modules [js ''home'', js ''node_modules''] \<noteq> None"
    "tree world_node_modules [js ''home'', js ''node_modules'', js ''express''] = Some Dir"
    by (simp_all add: world_defs)
  have f: "\<not> os_fault world_node_modules" by (simp add: world_defs os_fault_def)
  show ?thesis
    by (simp add: generate_invalid [OF v] p t catch_removes f InvalidNameError_def)
qed

text \<open>
  Claim C6, at the input that shows the defect. The key \<open>constructor\<close> is not one of the
  five templates, yet \<open>templates["constructor"]\<close> is the inherited member of
  \<open>Object.prototype\<close>: the generator creates the target directory and then fails with a
  \<open>TypeError\<close>, not with the unknown-template error.
\<close>

theorem inherited_key_is_not_unknown:
  "validateProjectName (js ''ok-app'') = None \<and>
   tree world_home [js ''home'', js ''ok-app''] = None \<and>
   fst (generateProject (js ''ok-app'') (js ''constructor'') world_home) = Some NotAFunctionError \<and>
   NotAFunctionError \<noteq> UnknownTemplateError (js ''constructor'') \<and>
   EnsureDirCall [js ''home'', js ''ok-app'']
     \<in> set (calls (snd (generateProject (js ''ok-app'') (js ''constructor'') world_home)))"
proof -
  have v: "validateProjectName (js ''ok-app'') = None"
    by (simp add: validateProjectName_def js_def trim_def isWhiteSpace_def validNameRegex_def
        nameClass_def startsWith_def array_includes_def reservedNames_def toLowerCase_def)
  have p: "path_join (cwd world_home) (js ''ok-app'') = [js ''home'', js ''ok-app'']"
    by (simp add: path_join_validated v world_defs)
  have g: "get_property templates (js ''constructor'') = PrototypeMember"
    by (simp add: get_property_def templates_def object_prototype_def js_def)
  have t: "tree world_home [js ''home'', js ''ok-app''] = None" by (simp add: world_defs js_def)
  have e: "ensureDir [js ''home'', js ''ok-app''] (called (PathExistsCall [js ''home'', js ''ok-app'']) world_home) =
      (None, (mutating (EnsureDirCall [js ''home'', js ''ok-app''])
               (called (PathExistsCall [js ''home'', js ''ok-app'']) world_home))
             \<lparr>tree := (tree world_home)([js ''home'', js ''ok-app''] \<mapsto> Dir)\<rparr>)"
    by (rule ensureDir_ok [THEN trans])
      (simp_all add: world_defs os_fault_def dir_chain_def is_file_def js_def)
  have d: "NotAFunctionError \<noteq> UnknownTemplateError (js ''constructor'')"
    by (simp add: NotAFunctionError_def UnknownTemplateError_def)
  have f: "no_faults world_home" by (simp add: no_faults_def world_defs)
  show ?thesis
    by (simp add: v t d generateProject_def generateProject_try_def p pathExists_def g e
        generateProject_catch_def Let_def remove_ok f)
qed

section \<open>A template that fails\<close>

lemma generate_collaborator:
  assumes v: "validateProjectName name = None"
    and a: "tree w (path_join (cwd w) name) = None"
    and g: "get_property templates kind = TemplateModule g"
    and d: "fst (ensureDir (path_join (cwd w) name)
                  (called (PathExistsCall (path_join (cwd w) name)) w)) = None"
  shows "generateProject_try name kind w =
           g (path_join (cwd w) name) name
             (snd (ensureDir (path_join (cwd w) name)
                     (called (PathExistsCall (path_join (cwd w) name)) w)))"
  using assms
  by (auto simp: generateProject_try_def pathExists_def Let_def split: prod.splits option.splits)

lemma collaborator_world:
  assumes a: "tree w p = None"
    and g: "get_property templates kind = TemplateModule g"
    and d: "fst (ensureDir p (called c w)) = None"
  shows "cwd (snd (g p name (snd (ensureDir p (called c w))))) = cwd w \<and>
         tree (snd (g p name (snd (ensureDir p (called c w))))) p = Some Dir"
proof -
  from a have "tree (called c w) p = None" by simp
  from ensureDir_result [OF this d]
  have "tree (snd (ensureDir p (called c w))) p = Some Dir"
    and "cwd (snd (ensureDir p (called c w))) = cwd w" by simp_all
  with template_keeps [OF g, of "snd (ensureDir p (called c w))" p name]
  show ?thesis by simp
qed

lemma ecom_generate_refused:
  assumes f: "faults w = False # False # False # True # fs"
    and ch: "dir_chain (tree w) p"
    and ab: "\<And>xs. xs \<noteq> [] \<Longrightarrow> tree w (p @ xs) = None"
  shows "fst (ecom_generate p n w) = Some (SystemError EIO (p @ [js ''README.md''])) \<and>
         faults (snd (ecom_generate p n w)) = fs \<and>
         tree (snd (ecom_generate p n w)) (p @ [js ''server.js'']) = Some (File (Const ''serverJs''))"
proof -
  from ch have tp: "tree w p = Some Dir" by (rule dir_chain_self)
  show ?thesis
    by (simp add: ecom_generate_def path_join_def normalize_step_def js_def writeFile_def
        writeJson_def write_node_ok write_node_refused os_fault_def f ab tp)
qed


lemma generate_rethrows:
  assumes v: "validateProjectName name = None"
    and a: "tree w (path_join (cwd w) name) = None"
    and g: "get_property templates kind = TemplateModule g"
    and d: "fst (ensureDir (path_join (cwd w) name)
                  (called (PathExistsCall (path_join (cwd w) name)) w)) = None"
    and e: "fst (g (path_join (cwd w) name) name
                  (snd (ensureDir (path_join (cwd w) name)
                          (called (PathExistsCall (path_join (cwd w) name)) w)))) = Some e"
  shows "generateProject name kind w =
           generateProject_catch name e
             (snd (g (path_join (cwd w) name) name
                     (snd (ensureDir (path_join (cwd w) name)
                             (called (PathExistsCall (path_join (cwd w) name)) w)))))"
proof -
  let ?r = "g (path_join (cwd w) name) name
              (snd (ensureDir (path_join (cwd w) name)
                      (called (PathExistsCall (path_join (cwd w) name)) w)))"
  from e have "?r = (Some e, snd ?r)" by (simp add: prod_eq_iff)
  with generate_collaborator [OF v a g d]
  have "generateProject_try name kind w = (Some e, snd ?r)" by simp
  then show ?thesis by (simp add: generateProject_def)
qed

lemma pathExists_snd [simp]: "snd (pathExists p w) = called (PathExistsCall p) w"
  by (simp add: pathExists_def)

text \<open>
  Claim C3, as amended. When the name is valid, the target does not exist, the template
  is one of the registry, the target directory has been created and the template's
  \<open>generate\<close> then throws an error, \<open>generateProject\<close> throws that same error, whatever
  the clean-up does. When the operating system does not refuse the removal, the target
  and everything below it are absent afterwards. When it refuses, the target directory
  is still there and the only trace is a warning on the console.
\<close>

theorem collaborator_error_is_rethrown:
  fixes w :: world and name kind :: jsstring and g :: "path \<Rightarrow> jsstring \<Rightarrow> action"
  defines "p \<equiv> path_join (cwd w) name"
  defines "w2 \<equiv> snd (ensureDir p (snd (pathExists p w)))"
  defines "w3 \<equiv> snd (g p name w2)"
  assumes v: "validateProjectName name = None"
    and a: "tree w p = None"
    and g: "get_property templates kind = TemplateModule g"
    and d: "fst (ensureDir p (snd (pathExists p w))) = None"
    and e: "fst (g p name w2) = Some e"
  shows "fst (generateProject name kind w) = Some e \<and>
         (\<not> os_fault w3 \<longrightarrow>
            (\<forall>q. prefix p q \<longrightarrow> tree (snd (generateProject name kind w)) q = None)) \<and>
         (os_fault w3 \<longrightarrow>
            tree (snd (generateProject name kind w)) p = Some Dir \<and>
            console (snd (generateProject name kind w)) = console w3 @ [CleanupWarning])"
proof -
  have r: "generateProject name kind w = generateProject_catch name e w3"
    using generate_rethrows [of name w kind g e] v a g d e
    by (simp add: p_def w2_def w3_def)
  have k: "cwd w3 = cwd w \<and> tree w3 p = Some Dir"
    using collaborator_world [of w p kind g "PathExistsCall p" name] a g d
    by (simp add: w2_def w3_def)
  then have pj: "path_join (cwd w3) name = p" and t: "tree w3 (path_join (cwd w3) name) \<noteq> None"
    by (simp_all add: p_def)
  show ?thesis
  proof (cases "os_fault w3")
    case True
    with t k show ?thesis by (simp add: r catch_refused pj)
  next
    case False
    with t show ?thesis by (simp add: r catch_removes pj)
  qed
qed

lemma broken_ecom:
  fixes fs :: "bool list"
  defines "w \<equiv> world_home\<lparr>faults := False # False # False # False # True # fs\<rparr>"
  defines "P \<equiv> [js ''home'', js ''broken'']"
  defines "w2 \<equiv> snd (ensureDir P (called (PathExistsCall P) w))"
  shows "validateProjectName (js ''broken'') = None \<and>
         path_join (cwd w) (js ''broken'') = P \<and>
         tree w P = None \<and>
         get_property templates (js ''ecom'') = TemplateModule ecom_generate \<and>
         fst (ensureDir P (called (PathExistsCall P) w)) = None \<and>
         fst (ecom_generate P (js ''broken'') w2) = Some (SystemError EIO (P @ [js ''README.md''])) \<and>
         faults (snd (ecom_generate P (js ''broken'') w2)) = fs \<and>
         tree (snd (ecom_generate P (js ''broken'') w2)) (P @ [js ''server.js'']) =
           Some (File (Const ''serverJs''))"
proof -
  have v: "validateProjectName (js ''broken'') = None"
    by (simp add: validateProjectName_def js_def trim_def isWhiteSpace_def validNameRegex_def
        nameClass_def startsWith_def array_includes_def reservedNames_def toLowerCase_def)
  have pj: "path_join (cwd w) (js ''broken'') = P"
    by (simp add: path_join_validated v w_def P_def world_home_def)
  have a: "tree w P = None" by (simp add: w_def P_def world_home_def js_def)
  have g: "get_property templates (js ''ecom'') = TemplateModule ecom_generate"
    by (simp add: get_property_def templates_def js_def)
  have e: "ensureDir P (called (PathExistsCall P) w) =
      (None, (mutating (EnsureDirCall P) (called (PathExistsCall P) w))\<lparr>tree := (tree w)(P \<mapsto> Dir)\<rparr>)"
    by (rule ensureDir_ok [THEN trans])
      (simp_all add: w_def P_def world_home_def os_fault_def dir_chain_def is_file_def js_def)
  have f: "faults w2 = False # False # False # True # fs"
    unfolding w2_def e by (simp add: w_def)
  have ch: "dir_chain (tree w2) P"
    unfolding w2_def e by (simp add: w_def P_def world_home_def dir_chain_def js_def)
  have ab: "\<And>xs. xs \<noteq> [] \<Longrightarrow> tree w2 (P @ xs) = None"
    unfolding w2_def e by (simp add: w_def P_def world_home_def js_def)
  from ecom_generate_refused [OF f ch ab, of "js ''broken''"] v pj a g e
  show ?thesis by simp
qed

text \<open>
  The amended claim C3 on a disk that refuses the fifth mutating call: the e-commerce
  template has written three files when its fourth write fails; the caller sees the
  error of that write, and the target directory is gone.
\<close>

theorem collaborator_error_is_rethrown_witness:
  "validateProjectName (js ''broken'') = None \<and>
   tree world_disk_full [js ''home'', js ''broken''] = None \<and>
   get_property templates (js ''ecom'') = TemplateModule ecom_generate \<and>
   fst (generateProject (js ''broken'') (js ''ecom'') world_disk_full) =
     Some (SystemError EIO [js ''home'', js ''broken'', js ''README.md'']) \<and>
   tree (snd (generateProject (js ''broken'') (js ''ecom'') world_disk_full))
     [js ''home'', js ''broken''] = None"
proof -
  note b = broken_ecom [of "[]", folded world_disk_full_def]
  have nf: "\<not> os_fault (snd (ecom_generate [js ''home'', js ''broken''] (js ''broken'')
      (snd (ensureDir [js ''home'', js ''broken'']
         (called (PathExistsCall [js ''home'', js ''broken'']) world_disk_full)))))"
    using b by (simp add: os_fault_def)
  from collaborator_error_is_rethrown [where w = world_disk_full and name = "js ''broken''"
      and kind = "js ''ecom''" and g = ecom_generate
      and e = "SystemError EIO [js ''home'', js ''broken'', js ''README.md'']"]
    b nf
  show ?thesis by simp
qed

text \<open>
  Claim C3 as stated fails on a disk that refuses the fifth and the sixth mutating call:
  the fourth write of the e-commerce template fails after three files were written, the
  removal in the catch block is refused as well, and the target directory with the
  files written so far is still on the disk when the caller sees the template's error.
\<close>

theorem rollback_can_fail_counterexample:
  "validateProjectName (js ''broken'') = None \<and>
   tree world_locked [js ''home'', js ''broken''] = None \<and>
   get_property templates (js ''ecom'') = TemplateModule ecom_generate \<and>
   fst (ecom_generate [js ''home'', js ''broken''] (js ''broken'')
          (snd (ensureDir [js ''home'', js ''broken'']
                  (snd (pathExists [js ''home'', js ''broken''] world_locked))))) =
     Some (SystemError EIO [js ''home'', js ''broken'', js ''README.md'']) \<and>
   fst (generateProject (js ''broken'') (js ''ecom'') world_locked) =
     Some (SystemError EIO [js ''home'', js ''broken'', js ''README.md'']) \<and>
   tree (snd (generateProject (js ''broken'') (js ''ecom'') world_locked))
     [js ''home'', js ''broken''] = Some Dir \<and>
   tree (snd (generateProject (js ''broken'') (js ''ecom'') world_locked))
     [js ''home'', js ''broken'', js ''server.js''] = Some (File (Const ''serverJs''))"
proof -
  note b = broken_ecom [of "[True]", folded world_locked_def]
  let ?P = "[js ''home'', js ''broken'']"
  let ?w3 = "snd (ecom_generate ?P (js ''broken'')
      (snd (ensureDir ?P (called (PathExistsCall ?P) world_locked))))"
  have r: "generateProject (js ''broken'') (js ''ecom'') world_locked =
      generateProject_catch (js ''broken'')
        (SystemError EIO [js ''home'', js ''broken'', js ''README.md'']) ?w3"
    using generate_rethrows [of "js ''broken''" world_locked "js ''ecom''" ecom_generate
        "SystemError EIO [js ''home'', js ''broken'', js ''README.md'']"] b
    by simp
  have k: "cwd ?w3 = cwd world_locked \<and> tree ?w3 ?P = Some Dir"
    using collaborator_world [of world_locked ?P "js ''ecom''" ecom_generate
        "PathExistsCall ?P" "js ''broken''"] b by simp
  have f: "os_fault ?w3" using b by (simp add: os_fault_def)
  from k b have pj: "path_join (cwd ?w3) (js ''broken'') = ?P" by simp
  have "generateProject_catch (js ''broken'')
        (SystemError EIO [js ''home'', js ''broken'', js ''README.md'']) ?w3 =
      (Some (SystemError EIO [js ''home'', js ''broken'', js ''README.md'']),
       (mutating (RemoveCall ?P) (called (PathExistsCall ?P) ?w3))
         \<lparr>console := console ?w3 @ [CleanupWarning]\<rparr>)"
    using catch_refused [of ?w3 "js ''broken''"] k f pj by simp
  with r k b show ?thesis by simp
qed

section \<open>A successful run\<close>

lemma basic_generate_ok:
  assumes nf: "no_faults w" and ch: "dir_chain (tree w) p"
    and ab: "\<And>xs. xs \<noteq> [] \<Longrightarrow> tree w (p @ xs) = None"
  shows "fst (basic_generate p n w) = None \<and>
         tree (snd (basic_generate p n w)) p = Some Dir \<and>
         tree (snd (basic_generate p n w)) (p @ [js ''package.json'']) =
           Some (File (Applied ''packageJson'' n)) \<and>
         tree (snd (basic_generate p n w)) (p @ [js ''index.js'']) = Some (File (Const ''indexJs''))"
proof -
  from ch have tp: "tree w p = Some Dir" by (rule dir_chain_self)
  show ?thesis
    by (simp add: basic_generate_def path_join_def normalize_step_def js_def writeFile_def
        writeJson_def ensureDir_ok write_node_ok nf ch ab tp is_file_def)
qed

lemma basic_project_ok:
  assumes nf: "no_faults w" and ch: "dir_chain (tree w) (cwd w)"
    and ab: "\<forall>q. prefix (cwd w @ [js ''my-app'']) q \<longrightarrow> tree w q = None"
  shows "fst (generateProject (js ''my-app'') (js ''basic'') w) = None \<and>
         tree (snd (generateProject (js ''my-app'') (js ''basic'') w)) (cwd w @ [js ''my-app'']) =
           Some Dir \<and>
         tree (snd (generateProject (js ''my-app'') (js ''basic'') w))
           (cwd w @ [js ''my-app'', js ''package.json'']) =
           Some (File (Applied ''packageJson'' (js ''my-app''))) \<and>
         tree (snd (generateProject (js ''my-app'') (js ''basic'') w))
           (cwd w @ [js ''my-app'', js ''index.js'']) = Some (File (Const ''indexJs''))"
proof -
  let ?p = "cwd w @ [js ''my-app'']"
  let ?w1 = "called (PathExistsCall ?p) w"
  let ?w2 = "(mutating (EnsureDirCall ?p) ?w1)\<lparr>tree := (tree w)(?p \<mapsto> Dir)\<rparr>"
  have v: "validateProjectName (js ''my-app'') = None"
    by (simp add: validateProjectName_def js_def trim_def isWhiteSpace_def validNameRegex_def
        nameClass_def startsWith_def array_includes_def reservedNames_def toLowerCase_def)
  have pj: "path_join (cwd w) (js ''my-app'') = ?p"
    by (simp add: path_join_validated v)
  from ab have a: "tree w ?p = None" and below: "\<And>xs. tree w (?p @ xs) = None"
    by simp_all
  have g: "get_property templates (js ''basic'') = TemplateModule basic_generate"
    by (simp add: get_property_def templates_def js_def)
  have e: "ensureDir ?p ?w1 = (None, ?w2)"
    by (rule ensureDir_ok [THEN trans]) (simp_all add: nf ch a is_file_def)
  have nf2: "no_faults ?w2" by (simp add: nf)
  have ch2: "dir_chain (tree ?w2) ?p" using dir_chain_snoc [OF ch] by simp
  have ab2: "\<And>xs. xs \<noteq> [] \<Longrightarrow> tree ?w2 (?p @ xs) = None"
    using below by simp
  have t: "generateProject_try (js ''my-app'') (js ''basic'') w =
      basic_generate ?p (js ''my-app'') ?w2"
    using generate_collaborator [of "js ''my-app''" w "js ''basic''" basic_generate] v a g e
    by (simp add: pj)
  from basic_generate_ok [OF nf2 ch2 ab2, of "js ''my-app''"]
  have ok: "fst (basic_generate ?p (js ''my-app'') ?w2) = None"
    and files: "tree (snd (basic_generate ?p (js ''my-app'') ?w2)) ?p = Some Dir"
      "tree (snd (basic_generate ?p (js ''my-app'') ?w2)) (?p @ [js ''package.json'']) =
         Some (File (Applied ''packageJson'' (js ''my-app'')))"
      "tree (snd (basic_generate ?p (js ''my-app'') ?w2)) (?p @ [js ''index.js'']) =
         Some (File (Const ''indexJs''))"
    by simp_all
  from ok have "generateProject (js ''my-app'') (js ''basic'') w =
      (None, snd (basic_generate ?p (js ''my-app'') ?w2))"
    by (cases "basic_generate ?p (js ''my-app'') ?w2") (simp add: generateProject_def t)
  with files show ?thesis by simp
qed

lemma world_home_ready:
  "no_faults world_home \<and> dir_chain (tree world_home) (cwd world_home) \<and>
   cwd world_home = [js ''home''] \<and>
   (\<forall>q. prefix (cwd world_home @ [js ''my-app'']) q \<longrightarrow> tree world_home q = None)"
  by (auto simp: world_home_def no_faults_def dir_chain_def js_def)

text \<open>
  Claim C9. In a working directory that is a directory with directories above it, where
  neither \<open>my-app\<close> nor anything below it exists, and with an operating system that
  refuses no call, \<open>generateProject "my-app" "basic"\<close> returns normally; afterwards
  \<open>my-app\<close> is a directory that holds the files \<open>package.json\<close> and \<open>index.js\<close>.
\<close>

theorem basic_project_is_generated:
  assumes "no_faults w" and "dir_chain (tree w) (cwd w)"
    and "\<forall>q. prefix (cwd w @ [js ''my-app'']) q \<longrightarrow> tree w q = None"
  shows "fst (generateProject (js ''my-app'') (js ''basic'') w) = None \<and>
         tree (snd (generateProject (js ''my-app'') (js ''basic'') w)) (cwd w @ [js ''my-app'']) =
           Some Dir \<and>
         tree (snd (generateProject (js ''my-app'') (js ''basic'') w))
           (cwd w @ [js ''my-app'', js ''package.json'']) =
           Some (File (Applied ''packageJson'' (js ''my-app''))) \<and>
         tree (snd (generateProject (js ''my-app'') (js ''basic'') w))
           (cwd w @ [js ''my-app'', js ''index.js'']) = Some (File (Const ''indexJs''))"
  using assms by (rule basic_project_ok)

text \<open>Claim C9 in the world \<open>world_home\<close>.\<close>

theorem basic_project_is_generated_witness:
  "no_faults world_home \<and> dir_chain (tree world_home) (cwd world_home) \<and>
   tree world_home [js ''home'', js ''my-app''] = None \<and>
   fst (generateProject (js ''my-app'') (js ''basic'') world_home) = None \<and>
   tree (snd (generateProject (js ''my-app'') (js ''basic'') world_home))
     [js ''home'', js ''my-app''] = Some Dir \<and>
   tree (snd (generateProject (js ''my-app'') (js ''basic'') world_home))
     [js ''home'', js ''my-app'', js ''package.json''] =
     Some (File (Applied ''packageJson'' (js ''my-app''))) \<and>
   tree (snd (generateProject (js ''my-app'') (js ''basic'') world_home))
     [js ''home'', js ''my-app'', js ''index.js''] = Some (File (Const ''indexJs''))"
proof -
  have r: "no_faults world_home" "dir_chain (tree world_home) (cwd world_home)"
    "\<forall>q. prefix (cwd world_home @ [js ''my-app'']) q \<longrightarrow> tree world_home q = None"
    and c: "cwd world_home = [js ''home'']"
    using world_home_ready by blast+
  have a: "tree world_home [js ''home'', js ''my-app''] = None"
    by (simp add: world_home_def js_def)
  from basic_project_is_generated [OF r] r a show ?thesis
    unfolding c by simp
qed

lemma generate_success:
  assumes "fst (generateProject name kind w) = None"
  shows "validateProjectName name = None \<and>
         cwd (snd (generateProject name kind w)) = cwd w \<and>
         tree (snd (generateProject name kind w)) (path_join (cwd w) name) = Some Dir"
proof -
  let ?p = "path_join (cwd w) name"
  let ?w1 = "called (PathExistsCall ?p) w"
  from assms have t: "fst (generateProject_try name kind w) = None"
    by (simp add: generateProject_def split: prod.splits option.splits)
  then have v: "validateProjectName name = None"
    by (cases "validateProjectName name") (simp_all add: generateProject_try_def)
  from t v have a: "tree w ?p = None"
    by (auto simp: generateProject_try_def pathExists_def Let_def split: if_splits)
  from t v a have d: "fst (ensureDir ?p ?w1) = None"
    by (auto simp: generateProject_try_def pathExists_def Let_def
        split: jsvalue.splits prod.splits option.splits)
  from t v a d obtain g where g: "get_property templates kind = TemplateModule g"
    by (cases "get_property templates kind")
      (auto simp: generateProject_try_def pathExists_def Let_def split: prod.splits option.splits)
  from generate_collaborator [OF v a g d] t
  have "generateProject name kind w = (None, snd (g ?p name (snd (ensureDir ?p ?w1))))"
    by (cases "g ?p name (snd (ensureDir ?p ?w1))") (simp add: generateProject_def)
  with collaborator_world [OF a g d, of name] v show ?thesis by simp
qed

text \<open>
  Claim C7. When a call of \<open>generateProject\<close> returns normally, a second call with the
  same name, right after it and with any template key, fails with the
  directory-exists error.
\<close>

theorem second_call_fails:
  assumes "fst (generateProject name kind w) = None"
  shows "fst (generateProject name kind' (snd (generateProject name kind w))) =
           Some (DirectoryExistsError name)"
proof -
  from generate_success [OF assms]
  have "validateProjectName name = None"
    and "tree (snd (generateProject name kind w))
           (path_join (cwd (snd (generateProject name kind w))) name) \<noteq> None"
    by simp_all
  then show ?thesis by (simp add: generate_existing)
qed

text \<open>Claim C7 in the world \<open>world_home\<close>, for \<open>my-app\<close> and the basic template.\<close>

theorem second_call_fails_witness:
  "fst (generateProject (js ''my-app'') (js ''basic'') world_home) = None \<and>
   fst (generateProject (js ''my-app'') (js ''basic'')
          (snd (generateProject (js ''my-app'') (js ''basic'') world_home))) =
     Some (DirectoryExistsError (js ''my-app''))"
proof -
  have r: "no_faults world_home" "dir_chain (tree world_home) (cwd world_home)"
    "\<forall>q. prefix (cwd world_home @ [js ''my-app'']) q \<longrightarrow> tree world_home q = None"
    using world_home_ready by blast+
  from basic_project_ok [OF r]
  have "fst (generateProject (js ''my-app'') (js ''basic'') world_home) = None" by blast
  with second_call_fails [of "js ''my-app''" "js ''basic''" world_home "js ''basic''"]
  show ?thesis by simp
qed

section \<open>The order of the steps\<close>

lemma catch_calls:
  "\<exists>ys. calls (snd (generateProject_catch name e w)) =
          calls w @ PathExistsCall (path_join (cwd w) name) # ys \<and> \<not> list_ex creating ys"
proof (cases "tree w (path_join (cwd w) name) = None")
  case True
  then show ?thesis by (simp add: catch_absent)
next
  case False
  then show ?thesis
    by (cases "os_fault w") (simp_all add: catch_removes catch_refused)
qed

lemma ensureDir_calls: "calls (snd (ensureDir k w)) = calls w @ [EnsureDirCall k]"
  by (simp add: ensureDir_def Let_def)

lemma write_node_calls: "calls (snd (write_node c k x w)) = calls w @ [c]"
  by (simp add: write_node_def Let_def split: option.splits node.splits)

lemma prefix_snoc_calls: "prefix cs xs \<Longrightarrow> prefix cs (xs @ ys)"
  by (simp add: prefix_def) auto

lemma template_calls:
  assumes "get_property templates kind = TemplateModule g" and "prefix cs (calls w)"
  shows "prefix cs (calls (snd (g p n w)))"
proof -
  from assms(1) have "g = basic_generate \<or> g = chatapp_generate \<or> g = ecom_generate \<or>
      g = blog_generate \<or> g = aichat_generate"
    by (auto simp: get_property_def templates_def split: if_splits)
  moreover have "prefix cs (calls (snd (basic_generate p n w)))"
    unfolding basic_generate_def
    by (rule run_keeps [where P = "\<lambda>w. prefix cs (calls w)"])
      (simp_all add: assms(2) writeFile_def writeJson_def ensureDir_calls write_node_calls
        prefix_snoc_calls)
  moreover have "prefix cs (calls (snd (chatapp_generate p n w)))"
    unfolding chatapp_generate_def
    by (rule run_keeps [where P = "\<lambda>w. prefix cs (calls w)"])
      (simp_all add: assms(2) writeFile_def writeJson_def ensureDir_calls write_node_calls
        prefix_snoc_calls)
  moreover have "prefix cs (calls (snd (ecom_generate p n w)))"
    unfolding ecom_generate_def
    by (rule run_keeps [where P = "\<lambda>w. prefix cs (calls w)"])
      (simp_all add: assms(2) writeFile_def writeJson_def ensureDir_calls write_node_calls
        prefix_snoc_calls)
  moreover have "prefix cs (calls (snd (blog_generate p n w)))"
    unfolding blog_generate_def
    by (rule run_keeps [where P = "\<lambda>w. prefix cs (calls w)"])
      (simp_all add: assms(2) writeFile_def writeJson_def ensureDir_calls write_node_calls
        prefix_snoc_calls)
  moreover have "prefix cs (calls (snd (aichat_generate p n w)))"
    unfolding aichat_generate_def
    by (rule run_keeps [where P = "\<lambda>w. prefix cs (calls w)"])
      (simp_all add: assms(2) writeFile_def writeJson_def ensureDir_calls write_node_calls
        prefix_snoc_calls)
  ultimately show ?thesis by blast
qed

lemma registry_lookup:
  "map_of templates kind = Some g \<Longrightarrow> get_property templates kind = TemplateModule g"
  "map_of templates kind = None \<Longrightarrow> kind \<notin> set object_prototype \<Longrightarrow>
     get_property templates kind = Undefined"
  by (simp_all add: get_property_def)

text \<open>
  The order of the steps, for the keys that the registry decides. A name that fails
  validation gives the validator's error whatever the disk and the template key are. A
  valid name whose target exists gives the directory-exists error whatever the key is.
  A valid name with an absent target and a key that is neither in the registry nor a
  member of \<open>Object.prototype\<close> gives the unknown-template error. In these three cases
  the run makes no call that creates a directory or a file. For a key of the registry
  the calls of the run start with the existence check of the target and its creation;
  when the creation fails its error is the result and nothing is created afterwards;
  when it succeeds the template's \<open>generate\<close> runs in the world that the creation left,
  its calls follow, its result is the result of the run, and what follows its calls
  (the clean-up after an error) creates nothing.
\<close>

lemma steps_for_registry_keys:
  fixes w :: world and name kind :: jsstring
  defines "p \<equiv> path_join (cwd w) name"
  defines "r \<equiv> generateProject name kind w"
  defines "new \<equiv> new_calls w (snd (generateProject name kind w))"
  defines "w2 \<equiv> snd (ensureDir p (snd (pathExists p w)))"
  shows "(\<forall>e. validateProjectName name = Some e \<longrightarrow>
            fst r = Some e \<and> \<not> list_ex creating new) \<and>
         (validateProjectName name = None \<and> tree w p \<noteq> None \<longrightarrow>
            fst r = Some (DirectoryExistsError name) \<and> \<not> list_ex creating new) \<and>
         (validateProjectName name = None \<and> tree w p = None \<and>
          map_of templates kind = None \<and> kind \<notin> set object_prototype \<longrightarrow>
            fst r = Some (UnknownTemplateError kind) \<and> \<not> list_ex creating new) \<and>
         (\<forall>g. validateProjectName name = None \<and> tree w p = None \<and>
              map_of templates kind = Some g \<longrightarrow>
            (\<forall>e. fst (ensureDir p (snd (pathExists p w))) = Some e \<longrightarrow>
               fst r = Some e \<and>
               (\<exists>tail. new = PathExistsCall p # EnsureDirCall p # tail \<and>
                  \<not> list_ex creating tail)) \<and>
            (fst (ensureDir p (snd (pathExists p w))) = None \<longrightarrow>
               fst r = fst (g p name w2) \<and>
               (\<exists>tail. new = PathExistsCall p # EnsureDirCall p #
                           new_calls w2 (snd (g p name w2)) @ tail \<and>
                  \<not> list_ex creating tail)))"
proof (intro conjI allI impI)
  fix e assume v: "validateProjectName name = Some e"
  from catch_calls [of name e w] obtain ys where
    "calls (snd (generateProject_catch name e w)) = calls w @ PathExistsCall p # ys"
    and "\<not> list_ex creating ys" by (auto simp: p_def)
  then show "fst r = Some e" and "\<not> list_ex creating new"
    by (simp_all add: r_def new_def generate_invalid [OF v] new_calls_def)
next
  assume h: "validateProjectName name = None \<and> tree w p \<noteq> None"
  let ?w1 = "called (PathExistsCall p) w"
  from h have g: "generateProject name kind w =
      generateProject_catch name (DirectoryExistsError name) ?w1"
    by (simp add: generate_existing p_def)
  from catch_calls [of name "DirectoryExistsError name" ?w1] obtain ys where
    "calls (snd (generateProject_catch name (DirectoryExistsError name) ?w1)) =
       calls w @ PathExistsCall p # PathExistsCall p # ys"
    and "\<not> list_ex creating ys" by (auto simp: p_def)
  then show "fst r = Some (DirectoryExistsError name)" and "\<not> list_ex creating new"
    by (simp_all add: r_def new_def g new_calls_def)
next
  assume h: "validateProjectName name = None \<and> tree w p = None \<and>
      map_of templates kind = None \<and> kind \<notin> set object_prototype"
  let ?w1 = "called (PathExistsCall p) w"
  from h have u: "get_property templates kind = Undefined"
    by (simp add: registry_lookup)
  with h have g: "generateProject name kind w =
      generateProject_catch name (UnknownTemplateError kind) ?w1"
    by (simp add: generate_unknown p_def)
  from catch_calls [of name "UnknownTemplateError kind" ?w1] obtain ys where
    "calls (snd (generateProject_catch name (UnknownTemplateError kind) ?w1)) =
       calls w @ PathExistsCall p # PathExistsCall p # ys"
    and "\<not> list_ex creating ys" by (auto simp: p_def)
  then show "fst r = Some (UnknownTemplateError kind)" and "\<not> list_ex creating new"
    by (simp_all add: r_def new_def g new_calls_def)
next
  fix g e
  assume h: "validateProjectName name = None \<and> tree w p = None \<and>
      map_of templates kind = Some g"
    and f: "fst (ensureDir p (snd (pathExists p w))) = Some e"
  let ?w1 = "called (PathExistsCall p) w"
  let ?w2 = "snd (ensureDir p ?w1)"
  from h have tm: "get_property templates kind = TemplateModule g"
    by (simp add: registry_lookup)
  have c2: "calls ?w2 = calls w @ [PathExistsCall p, EnsureDirCall p]"
    by (simp add: ensureDir_calls)
  obtain r2 v2 where ed: "ensureDir (path_join (cwd w) name)
      (called (PathExistsCall (path_join (cwd w) name)) w) = (r2, v2)"
    by (cases "ensureDir (path_join (cwd w) name)
      (called (PathExistsCall (path_join (cwd w) name)) w)") blast
  with f have r2: "r2 = Some e" and v2: "v2 = ?w2" by (simp_all add: p_def)
  from h tm have "generateProject_try name kind w = (Some e, v2)"
    by (simp add: generateProject_try_def pathExists_def Let_def p_def ed r2)
  then have gp: "generateProject name kind w = generateProject_catch name e ?w2"
    by (simp add: generateProject_def v2)
  from catch_calls [of name e ?w2] obtain ys where
    "calls (snd (generateProject_catch name e ?w2)) =
       calls w @ PathExistsCall p # EnsureDirCall p #
         PathExistsCall (path_join (cwd ?w2) name) # ys"
    and "\<not> list_ex creating ys" by (auto simp: c2)
  then show "fst r = Some e"
    and "\<exists>tail. new = PathExistsCall p # EnsureDirCall p # tail \<and> \<not> list_ex creating tail"
    by (simp_all add: r_def new_def gp new_calls_def)
next
  fix g
  assume h: "validateProjectName name = None \<and> tree w p = None \<and>
      map_of templates kind = Some g"
    and f: "fst (ensureDir p (snd (pathExists p w))) = None"
  let ?w1 = "called (PathExistsCall p) w"
  let ?w2 = "snd (ensureDir p ?w1)"
  let ?w3 = "snd (g p name ?w2)"
  from h have tm: "get_property templates kind = TemplateModule g"
    by (simp add: registry_lookup)
  have w2: "w2 = ?w2" by (simp add: w2_def)
  have c2: "calls ?w2 = calls w @ [PathExistsCall p, EnsureDirCall p]"
    by (simp add: ensureDir_calls)
  from template_calls [OF tm, of "calls ?w2" ?w2 p name]
  obtain zs where z: "calls ?w3 = calls ?w2 @ zs" by (auto simp: prefix_def)
  then have nz: "new_calls ?w2 ?w3 = zs" by (simp add: new_calls_def)
  from h tm f have t: "generateProject_try name kind w = g p name ?w2"
    using generate_collaborator [of name w kind g] by (simp add: p_def)
  obtain r3 v3 where gr: "g p name ?w2 = (r3, v3)"
    by (cases "g p name ?w2") blast
  then have r3: "fst (g p name ?w2) = r3" and v3: "?w3 = v3" by simp_all
  from t gr have t': "generateProject_try name kind w = (r3, v3)" by simp
  show "fst r = fst (g p name w2)"
    unfolding w2 r3 r_def by (cases r3) (simp_all add: generateProject_def t')
  from z c2 v3 have cv: "calls v3 = calls w @ PathExistsCall p # EnsureDirCall p # zs"
    by simp
  show "\<exists>tail. new = PathExistsCall p # EnsureDirCall p # new_calls w2 (snd (g p name w2)) @ tail \<and>
      \<not> list_ex creating tail"
    unfolding w2 nz
  proof (cases r3)
    case None
    with t' have "generateProject name kind w = (None, v3)"
      by (simp add: generateProject_def)
    then have "new = PathExistsCall p # EnsureDirCall p # zs @ []"
      by (simp add: new_def new_calls_def cv)
    then show "\<exists>tail. new = PathExistsCall p # EnsureDirCall p # zs @ tail \<and>
        \<not> list_ex creating tail"
      by (intro exI [of _ "[]"]) simp
  next
    case (Some e)
    with t' have gp: "generateProject name kind w = generateProject_catch name e v3"
      by (simp add: generateProject_def)
    from catch_calls [of name e v3] obtain ys where
      cc: "calls (snd (generateProject_catch name e v3)) =
         calls v3 @ PathExistsCall (path_join (cwd v3) name) # ys"
      and nc: "\<not> list_ex creating ys" by auto
    have "new = PathExistsCall p # EnsureDirCall p # zs @
        (PathExistsCall (path_join (cwd v3) name) # ys)"
      unfolding new_def gp new_calls_def cc by (simp add: cv)
    with nc show "\<exists>tail. new = PathExistsCall p # EnsureDirCall p # zs @ tail \<and>
        \<not> list_ex creating tail"
      by (intro exI [of _ "PathExistsCall (path_join (cwd v3) name) # ys"]) simp
  qed
qed

text \<open>
  Claim C8, at the input that shows the defect. The key \<open>toString\<close> is not in the
  registry, so the registry lookup has not succeeded; yet for the valid name \<open>ok-app\<close>
  with no such directory the run calls \<open>fs.ensureDir\<close> on the target, which succeeds and
  creates it, before the call of \<open>generate\<close> on the inherited member fails and the catch
  block removes the directory again.
\<close>

theorem directory_created_for_inherited_key:
  "validateProjectName (js ''ok-app'') = None \<and>
   tree world_home [js ''home'', js ''ok-app''] = None \<and>
   map_of templates (js ''toString'') = None \<and>
   fst (ensureDir [js ''home'', js ''ok-app'']
          (snd (pathExists [js ''home'', js ''ok-app''] world_home))) = None \<and>
   creating (EnsureDirCall [js ''home'', js ''ok-app'']) \<and>
   new_calls world_home (snd (generateProject (js ''ok-app'') (js ''toString'') world_home)) =
     [PathExistsCall [js ''home'', js ''ok-app''], EnsureDirCall [js ''home'', js ''ok-app''],
      PathExistsCall [js ''home'', js ''ok-app''], RemoveCall [js ''home'', js ''ok-app'']] \<and>
   fst (generateProject (js ''ok-app'') (js ''toString'') world_home) = Some NotAFunctionError"
proof -
  have v: "validateProjectName (js ''ok-app'') = None"
    by (simp add: validateProjectName_def js_def trim_def isWhiteSpace_def validNameRegex_def
        nameClass_def startsWith_def array_includes_def reservedNames_def toLowerCase_def)
  have p: "path_join (cwd world_home) (js ''ok-app'') = [js ''home'', js ''ok-app'']"
    by (simp add: path_join_validated v world_defs)
  have m: "map_of templates (js ''toString'') = None"
    by (simp add: templates_def js_def)
  have g: "get_property templates (js ''toString'') = PrototypeMember"
    by (simp add: get_property_def m) (simp add: object_prototype_def js_def)
  have t: "tree world_home [js ''home'', js ''ok-app''] = None" by (simp add: world_defs js_def)
  have c: "calls world_home = []" by (simp add: world_defs)
  have e: "ensureDir [js ''home'', js ''ok-app''] (called (PathExistsCall [js ''home'', js ''ok-app'']) world_home) =
      (None, (mutating (EnsureDirCall [js ''home'', js ''ok-app''])
               (called (PathExistsCall [js ''home'', js ''ok-app'']) world_home))
             \<lparr>tree := (tree world_home)([js ''home'', js ''ok-app''] \<mapsto> Dir)\<rparr>)"
    by (rule ensureDir_ok [THEN trans])
      (simp_all add: world_defs os_fault_def dir_chain_def is_file_def js_def)
  have f: "no_faults world_home" by (simp add: no_faults_def world_defs)
  show ?thesis
    by (simp add: v t m c generateProject_def generateProject_try_def p pathExists_def g e
        generateProject_catch_def Let_def remove_ok f new_calls_def)
qed

end
